theory Spec2Isabelle
  imports Complex_Main "HOL-Library.Multiset"
begin

section \<open>Python values\<close>

text \<open>
  The three drivers (\<^verbatim>\<open>browse_sim.py\<close>, \<^verbatim>\<open>websitetraffic.py\<close>,
  \<^verbatim>\<open>enhanced_web_traffic_simulator.py\<close>) compute with Python floats for times and
  fractions and with unbounded integers for counters. Times, delays and fractions are
  modelled as exact rationals (\<^typ>\<open>rat\<close>), so \<open>0.8\<close> is \<open>8 / 10\<close>; counters are
  \<^typ>\<open>nat\<close>, as they start at zero and are only ever incremented.

  A call that asks the outside world for a value (the clock, the random generator, the
  HTTP transport, the resolver) takes the value it got as an argument: the functions below
  are deterministic in the answers of the environment.
\<close>

definition py_int :: "rat \<Rightarrow> int" where
  \<comment> \<open>\<^verbatim>\<open>int(x)\<close> on a float: truncation towards zero.\<close>
  "py_int x = (if 0 \<le> x then \<lfloor>x\<rfloor> else \<lceil>x\<rceil>)"

definition py_range :: "int \<Rightarrow> nat list" where
  \<comment> \<open>\<^verbatim>\<open>range(n)\<close>: empty when \<open>n \<le> 0\<close>.\<close>
  "py_range n = [0 ..< nat n]"

definition uniform :: "rat \<Rightarrow> rat \<Rightarrow> rat \<Rightarrow> rat" where
  \<comment> \<open>\<^verbatim>\<open>random.uniform(a, b)\<close> is \<^verbatim>\<open>a + (b - a) * random()\<close>; \<open>u\<close> is the
      value \<^verbatim>\<open>random()\<close> returned.\<close>
  "uniform a b u = a + (b - a) * u"

section \<open>\<^verbatim>\<open>browse_sim.py\<close>\<close>

definition jitter :: "rat \<Rightarrow> rat \<Rightarrow> rat \<Rightarrow> rat" where
  \<comment> \<open>\<^verbatim>\<open>max(0.1, random.uniform(base * (1 - variance), base * (1 + variance)))\<close>\<close>
  "jitter base variance u =
     max (1 / 10) (uniform (base * (1 - variance)) (base * (1 + variance)) u)"

section \<open>The state the simulators act on\<close>

text \<open>
  A URL is built by the library functions \<^verbatim>\<open>urljoin\<close> and \<^verbatim>\<open>quote\<close> and by
  f-strings; the model keeps how it was built instead of the resulting text.
\<close>

datatype url =
    Site string                      \<comment> \<open>an entry of a site table, as it is\<close>
  | Urljoin string string            \<comment> \<open>\<^verbatim>\<open>urljoin(website, path)\<close>\<close>
  | Search_url string string         \<comment> \<open>\<^verbatim>\<open>f"{website}/search?q={quote(query)}"\<close>\<close>
  | Attack_url string string string  \<comment> \<open>\<^verbatim>\<open>f"{site}/{target}?payload={quote(payload)}"\<close>\<close>

datatype pyval =
    PyInt int
  | PyFloat rat
  | PyStr string
  | PyIsoformat rat      \<comment> \<open>the string \<^verbatim>\<open>t.isoformat()\<close> of the instant \<open>t\<close>\<close>
  | PyDatetime rat       \<comment> \<open>a \<^verbatim>\<open>datetime\<close> object\<close>
  | PyList "pyval list"

type_synonym pydict = "(string \<times> pyval) list"

text \<open>What a run does to the outside world, in the order it does it.\<close>

datatype effect =
    Transport_call string url               \<comment> \<open>\<^verbatim>\<open>session.request(method, url)\<close>\<close>
  | Resolve string                          \<comment> \<open>\<^verbatim>\<open>socket.gethostbyname(domain)\<close>\<close>
  | Sleep rat                               \<comment> \<open>\<^verbatim>\<open>time.sleep(d)\<close>\<close>
  | Traffic_event string string url int     \<comment> \<open>simulation type, method, url, status\<close>
  | Security_event string string url        \<comment> \<open>event type, severity, the url it names\<close>
  | Compromise_event string string pydict bool
                                            \<comment> \<open>activity type, target, payload, success\<close>
  | Dns_event string string                 \<comment> \<open>domain, query type\<close>
  | Statistics_event pydict                 \<comment> \<open>the statistics logger's line\<close>
  | Status_line int string url              \<comment> \<open>\<^verbatim>\<open>"[{status}] {method} {url}"\<close>\<close>
  | Request_error_line url                  \<comment> \<open>\<^verbatim>\<open>"Error requesting {url}: {e}"\<close>\<close>
  | Interrupted_line                        \<comment> \<open>\<^verbatim>\<open>"Traffic generation interrupted by user"\<close>\<close>
  | Unexpected_error_line string            \<comment> \<open>\<^verbatim>\<open>"Unexpected error: {e}"\<close>\<close>
  | Session_completed_line pydict           \<comment> \<open>\<^verbatim>\<open>"Session completed: {json}"\<close>\<close>

record session_stats =
  total_requests :: nat
  successful_requests :: nat
  failed_requests :: nat
  security_events :: nat
  compromise_activities :: nat
  start_time :: rat

record event_counts =
  traffic :: nat
  security :: nat
  compromise :: nat
  dns :: nat

record world =
  stats :: session_stats        \<comment> \<open>\<^verbatim>\<open>self.session_stats\<close>\<close>
  counts :: event_counts        \<comment> \<open>\<^verbatim>\<open>self.logger.event_counts\<close>\<close>
  trace :: "effect list"

definition fresh_world :: "rat \<Rightarrow> world" where
  \<comment> \<open>\<^verbatim>\<open>__init__\<close>: all counters zero, \<^verbatim>\<open>start_time = datetime.now()\<close>.\<close>
  "fresh_world t =
     \<lparr>stats = \<lparr>total_requests = 0, successful_requests = 0, failed_requests = 0,
                security_events = 0, compromise_activities = 0, start_time = t\<rparr>,
      counts = \<lparr>traffic = 0, security = 0, compromise = 0, dns = 0\<rparr>,
      trace = []\<rparr>"

definition emit :: "effect \<Rightarrow> world \<Rightarrow> world" where
  "emit e w = w\<lparr>trace := trace w @ [e]\<rparr>"

definition time_sleep :: "rat \<Rightarrow> world \<Rightarrow> world" where
  "time_sleep d w = emit (Sleep d) w"

section \<open>The end of a window\<close>

text \<open>
  Both \<^verbatim>\<open>generate_traffic\<close> (\<^verbatim>\<open>websitetraffic.py\<close>) and
  \<^verbatim>\<open>generate_advanced_traffic\<close> end an iteration of their loop with
  \<^verbatim>\<open>
  elapsed = time.time() - minute_start
  if elapsed < 60:
      time.sleep(60 - elapsed)
  \<close>
  \<open>now\<close> is the reading of the clock after the batch.
\<close>

definition wait_for_rest_of_minute :: "rat \<Rightarrow> rat \<Rightarrow> world \<Rightarrow> world" where
  "wait_for_rest_of_minute minute_start now w =
     (let elapsed = now - minute_start
      in if elapsed < 60 then time_sleep (60 - elapsed) w else w)"

section \<open>\<^verbatim>\<open>enhanced_web_traffic_simulator.py\<close>: loggers\<close>

text \<open>
  Each \<^verbatim>\<open>SecurityEventLogger\<close> method counts the event in \<^verbatim>\<open>event_counts\<close> and
  writes one line. The user agent, the response time and the session id that the lines
  also carry are left out of the events.
\<close>

definition log_traffic :: "string \<Rightarrow> url \<Rightarrow> int \<Rightarrow> string \<Rightarrow> world \<Rightarrow> world" where
  "log_traffic method u status simulation_type w =
     emit (Traffic_event simulation_type method u status)
       (w\<lparr>counts := (counts w)\<lparr>traffic := traffic (counts w) + 1\<rparr>\<rparr>)"

definition log_security_event :: "string \<Rightarrow> string \<Rightarrow> url \<Rightarrow> world \<Rightarrow> world" where
  "log_security_event event_type severity u w =
     emit (Security_event event_type severity u)
       (w\<lparr>counts := (counts w)\<lparr>security := security (counts w) + 1\<rparr>\<rparr>)"

definition log_compromise_activity ::
  "string \<Rightarrow> string \<Rightarrow> pydict \<Rightarrow> bool \<Rightarrow> world \<Rightarrow> world" where
  "log_compromise_activity activity_type target payload success w =
     emit (Compromise_event activity_type target payload success)
       (w\<lparr>counts := (counts w)\<lparr>compromise := compromise (counts w) + 1\<rparr>\<rparr>)"

definition log_dns_query :: "string \<Rightarrow> string \<Rightarrow> world \<Rightarrow> world" where
  "log_dns_query domain query_type w =
     emit (Dns_event domain query_type)
       (w\<lparr>counts := (counts w)\<lparr>dns := dns (counts w) + 1\<rparr>\<rparr>)"

text \<open>
  \<^verbatim>\<open>json.dumps\<close> raises \<^verbatim>\<open>TypeError\<close> on a value that is not a number, a string,
  a list or a dict, so on a \<^verbatim>\<open>datetime\<close>. The text it returns otherwise is
  represented by the dict it was given.
\<close>

datatype py_error = TypeError | ZeroDivisionError

fun serializable :: "pyval \<Rightarrow> bool" where
  "serializable (PyDatetime t) = False"
| "serializable (PyList vs) = list_all serializable vs"
| "serializable v = True"

definition json_dumps :: "pydict \<Rightarrow> py_error + pydict" where
  "json_dumps d = (if list_all (\<lambda>(k, v). serializable v) d then Inr d else Inl TypeError)"

text \<open>
  A function that may raise returns the exception, if any, together with the world as it
  was when the exception left the function.
\<close>

definition log_statistics :: "pydict \<Rightarrow> world \<Rightarrow> py_error option \<times> world" where
  \<comment> \<open>\<^verbatim>\<open>self.stats_logger.info(f"SESSION:{self.session_id} STATS:{json.dumps(stats)}")\<close>\<close>
  "log_statistics d w =
     (case json_dumps d of
        Inl e \<Rightarrow> (Some e, w)
      | Inr txt \<Rightarrow> (None, emit (Statistics_event txt) w))"

section \<open>\<^verbatim>\<open>enhanced_web_traffic_simulator.py\<close>: one request\<close>

record response =
  status_code :: int

datatype transport_outcome =
    Responded response     \<comment> \<open>\<^verbatim>\<open>session.request\<close> returned a response\<close>
  | RequestException       \<comment> \<open>it raised \<^verbatim>\<open>requests.exceptions.RequestException\<close>\<close>

text \<open>
  The exceptions the \<^verbatim>\<open>requests\<close> library raises for a failed exchange (no
  connection, a timeout, too many redirects, an invalid URL) are all subclasses of
  \<^verbatim>\<open>RequestException\<close>, the class \<open>make_request\<close> catches.

  What the environment answers during one \<^verbatim>\<open>make_request\<close>:
\<close>

record exchange =
  hostname :: "string option"     \<comment> \<open>\<^verbatim>\<open>urlparse(url).hostname\<close>\<close>
  resolves :: bool                \<comment> \<open>whether \<^verbatim>\<open>socket.gethostbyname\<close> returned\<close>
  outcome :: transport_outcome

definition response_ok :: "response \<Rightarrow> bool" where
  \<comment> \<open>\<^verbatim>\<open>Response.__bool__\<close> is \<^verbatim>\<open>Response.ok\<close>: false exactly for the statuses from
      400 to 599, for which \<^verbatim>\<open>raise_for_status\<close> raises.\<close>
  "response_ok r = (\<not> (400 \<le> status_code r \<and> status_code r < 600))"

definition falsy :: "response option \<Rightarrow> bool" where
  \<comment> \<open>\<^verbatim>\<open>not response\<close>\<close>
  "falsy resp = (case resp of None \<Rightarrow> True | Some r \<Rightarrow> \<not> response_ok r)"

definition simulate_dns_lookup :: "string \<Rightarrow> bool \<Rightarrow> world \<Rightarrow> world" where
  "simulate_dns_lookup domain ok w =
     (let w1 = emit (Resolve domain) w
      in if ok then log_dns_query domain ''A'' w1 else log_dns_query domain ''A_FAILED'' w1)"

definition make_request ::
  "url \<Rightarrow> string \<Rightarrow> string \<Rightarrow> exchange \<Rightarrow> world \<Rightarrow> response option \<times> world" where
  "make_request u method simulation_type x w =
     (let w1 = (case hostname x of
                  None \<Rightarrow> w
                | Some h \<Rightarrow> if h \<noteq> [] then simulate_dns_lookup h (resolves x) w else w);
          w2 = emit (Transport_call method u) w1
      in case outcome x of
           Responded r \<Rightarrow>
             (let w3 = w2\<lparr>stats := (stats w2)\<lparr>total_requests := total_requests (stats w2) + 1\<rparr>\<rparr>;
                  w4 = (if status_code r < 400
                        then w3\<lparr>stats := (stats w3)
                               \<lparr>successful_requests := successful_requests (stats w3) + 1\<rparr>\<rparr>
                        else w3\<lparr>stats := (stats w3)
                               \<lparr>failed_requests := failed_requests (stats w3) + 1\<rparr>\<rparr>);
                  w5 = log_traffic method u (status_code r) simulation_type w4;
                  w6 = (if simulation_type = ''malicious''
                        then (let w' = log_security_event ''malicious_request'' ''high'' u w5
                              in w'\<lparr>stats := (stats w')
                                    \<lparr>security_events := security_events (stats w') + 1\<rparr>\<rparr>)
                        else w5)
              in (Some r, w6))
         | RequestException \<Rightarrow>
             (let w3 = w2\<lparr>stats := (stats w2)\<lparr>failed_requests := failed_requests (stats w2) + 1\<rparr>\<rparr>
              in (None, emit (Request_error_line u) w3)))"

section \<open>\<^verbatim>\<open>enhanced_web_traffic_simulator.py\<close>: compromised-host behaviour\<close>

record behavior =
  targets :: "string list"
  methods :: "string list"
  indicators :: "string list"

definition c2_domains :: "string list" where
  "c2_domains = [''c2.evil.com'', ''command.malicious.net'', ''control.bad.org'',
     ''backdoor.example.com'', ''rat.controller.net'', ''beacon.attacker.org'']"

definition compromise_behaviors :: "(string \<times> behavior) list" where
  "compromise_behaviors =
    [(''credential_theft'',
        \<lparr>targets = [''login'', ''signin'', ''auth'', ''password''],
         methods = [''POST'', ''PUT''],
         indicators = [''password'', ''username'', ''email'', ''login'']\<rparr>),
     (''data_exfiltration'',
        \<lparr>targets = [''upload'', ''transfer'', ''sync'', ''backup''],
         methods = [''POST'', ''PUT''],
         indicators = [''file'', ''data'', ''document'', ''export'']\<rparr>),
     (''lateral_movement'',
        \<lparr>targets = [''admin'', ''internal'', ''management'', ''control''],
         methods = [''GET'', ''POST''],
         indicators = [''scan'', ''enumerate'', ''discover'']\<rparr>),
     (''persistence'',
        \<lparr>targets = [''config'', ''settings'', ''startup'', ''service''],
         methods = [''POST'', ''PUT'', ''PATCH''],
         indicators = [''install'', ''register'', ''create'']\<rparr>),
     (''c2_communication'',
        \<lparr>targets = c2_domains,
         methods = [''GET'', ''POST''],
         indicators = [''beacon'', ''heartbeat'', ''check-in'']\<rparr>)]"

text \<open>
  The values \<^verbatim>\<open>simulate_compromised_behavior\<close> draws: the results of
  \<^verbatim>\<open>random.choice\<close> (a target and a method of the behaviour, a site, a command), of
  \<^verbatim>\<open>uuid.uuid4\<close>, \<^verbatim>\<open>time.time\<close>, \<^verbatim>\<open>os.urandom\<close> and \<^verbatim>\<open>random.randint\<close>.
\<close>

record behavior_draws =
  picked_target :: string
  picked_method :: string
  picked_site :: string
  payload_id :: string
  timestamp :: int
  command :: string
  data :: string
  size_mb :: string        \<comment> \<open>\<^verbatim>\<open>str(random.randint(1, 100))\<close>\<close>

definition simulate_compromised_behavior ::
  "string \<Rightarrow> behavior_draws \<Rightarrow> world \<Rightarrow> world" where
  "simulate_compromised_behavior behavior_type d w =
     (if behavior_type \<notin> set (map fst compromise_behaviors) then w
      else if behavior_type = ''c2_communication'' then
        (let c2_domain = picked_target d;
             payload = [(''id'', PyStr (payload_id d)),
                        (''timestamp'', PyInt (timestamp d)),
                        (''command'', PyStr (command d)),
                        (''data'', PyStr (data d))];
             w1 = log_compromise_activity behavior_type c2_domain payload False w
         in w1\<lparr>stats := (stats w1)
                \<lparr>compromise_activities := compromise_activities (stats w1) + 1\<rparr>\<rparr>)
      else if behavior_type = ''credential_theft'' then
        (let target_site = picked_site d;
             payload = [(''username'', PyStr ''admin''),
                        (''password'', PyStr ''password123''),
                        (''action'', PyStr ''harvest_credentials'')];
             w1 = log_compromise_activity behavior_type target_site payload False w
         in w1\<lparr>stats := (stats w1)
                \<lparr>compromise_activities := compromise_activities (stats w1) + 1\<rparr>\<rparr>)
      else if behavior_type = ''data_exfiltration'' then
        (let external_site = ''http://attacker-controlled.com'';
             payload = [(''stolen_files'', PyList [PyStr ''documents.zip'',
                                                   PyStr ''database.sql'',
                                                   PyStr ''credentials.txt'']),
                        (''size'', PyStr (size_mb d @ ''MB'')),
                        (''compression'', PyStr ''encrypted'')];
             w1 = log_compromise_activity behavior_type external_site payload False w
         in w1\<lparr>stats := (stats w1)
                \<lparr>compromise_activities := compromise_activities (stats w1) + 1\<rparr>\<rparr>)
      else w)"

section \<open>\<^verbatim>\<open>enhanced_web_traffic_simulator.py\<close>: sessions\<close>

text \<open>
  The draws of one pass through the interaction loop of
  \<^verbatim>\<open>simulate_human_browsing_session\<close>: the interaction type, the sub-path or the
  search term, the answer to the request if one is made, and the value of
  \<^verbatim>\<open>random()\<close> behind \<^verbatim>\<open>random.uniform(0.5, 3.0)\<close>.
\<close>

record interaction =
  interaction_type :: string
  picked :: string
  reply :: exchange
  delay_u :: rat

record session_draws =
  navigation :: exchange                   \<comment> \<open>the answer to the initial page load\<close>
  reading_u :: rat                         \<comment> \<open>behind \<^verbatim>\<open>random.uniform(2.0, 15.0)\<close>\<close>
  interactions :: int                      \<comment> \<open>\<^verbatim>\<open>random.randint(1, 5)\<close>\<close>
  interaction_at :: "nat \<Rightarrow> interaction"   \<comment> \<open>the draws of each pass\<close>
  compromise_u :: rat                      \<comment> \<open>\<^verbatim>\<open>random.random()\<close>\<close>
  compromise_behavior :: string            \<comment> \<open>\<^verbatim>\<open>random.choice\<close> of a behaviour name\<close>
  behavior_of :: behavior_draws

text \<open>
  \<open>make_request\<close> catches what the transport raises and nothing else in the body of a
  session raises, so the \<^verbatim>\<open>except Exception\<close> clause around the body is never
  entered and has no counterpart here.
\<close>

definition interact :: "string \<Rightarrow> string \<Rightarrow> interaction \<Rightarrow> world \<Rightarrow> world" where
  \<comment> \<open>the body of the interaction loop\<close>
  "interact website session_type i w =
     (let w1 =
        (if interaction_type i = ''subpage''
           then snd (make_request (Urljoin website (picked i)) ''GET'' session_type (reply i) w)
         else if interaction_type i = ''search''
           then snd (make_request (Search_url website (picked i)) ''GET'' session_type (reply i) w)
         else if interaction_type i = ''form_submit''
           then snd (make_request (Site website) ''POST'' session_type (reply i) w)
         else w)
      in time_sleep (uniform (1 / 2) 3 (delay_u i)) w1)"

definition simulate_human_browsing_session ::
  "string \<Rightarrow> string \<Rightarrow> session_draws \<Rightarrow> world \<Rightarrow> world" where
  "simulate_human_browsing_session website session_type d w =
     (case make_request (Site website) ''GET'' session_type (navigation d) w of
        (resp, w1) \<Rightarrow>
          if falsy resp then w1
          else
            (let w2 = time_sleep (uniform 2 15 (reading_u d)) w1;
                 w3 = fold (\<lambda>k. interact website session_type (interaction_at d k))
                        (py_range (interactions d)) w2
             in if session_type = ''compromised'' \<and> compromise_u d < 3 / 10
                then simulate_compromised_behavior (compromise_behavior d) (behavior_of d) w3
                else w3))"

record attack_pattern =
  payloads :: "string list"
  field_names :: "string list"      \<comment> \<open>the entry \<^verbatim>\<open>"targets"\<close> of the pattern\<close>

definition attack_patterns :: "(string \<times> attack_pattern) list" where
  "attack_patterns =
    [(''sql_injection'',
        \<lparr>payloads = [[CHR 0x27] @ '' OR 1=1--'', [CHR 0x27] @ ''; DROP TABLE users;--'',
                     ''admin'' @ [CHR 0x27] @ ''--''],
         field_names = [''search'', ''login'', ''id'', ''query'']\<rparr>),
     (''xss'',
        \<lparr>payloads = [''<script>alert('' @ [CHR 0x27] @ ''XSS'' @ [CHR 0x27] @ '')</script>'',
                     ''<img src=x onerror=alert(1)>''],
         field_names = [''comment'', ''search'', ''input'', ''name'']\<rparr>),
     (''directory_traversal'',
        \<lparr>payloads = [''../../../etc/passwd'',
                     ''..'' @ [CHR 0x5C] @ ''..'' @ [CHR 0x5C] @ ''..'' @ [CHR 0x5C]
                       @ ''windows'' @ [CHR 0x5C] @ ''system32'' @ [CHR 0x5C]],
         field_names = [''file'', ''path'', ''dir'', ''include'']\<rparr>),
     (''command_injection'',
        \<lparr>payloads = [''; cat /etc/passwd'', ''| whoami'', ''&& dir''],
         field_names = [''cmd'', ''exec'', ''system'', ''shell'']\<rparr>)]"

record attack_draws =
  malicious_site :: string
  attack_type :: string
  picked_payload :: string
  picked_field :: string
  answer :: exchange

definition generate_malicious_payload ::
  "string \<Rightarrow> attack_draws \<Rightarrow> (string \<times> string) option" where
  \<comment> \<open>\<^verbatim>\<open>(None, None)\<close> is \<open>None\<close>\<close>
  "generate_malicious_payload atype d =
     (if atype \<in> set (map fst attack_patterns)
      then Some (picked_payload d, picked_field d) else None)"

definition simulate_malicious_traffic :: "attack_draws \<Rightarrow> world \<Rightarrow> world" where
  "simulate_malicious_traffic d w =
     (case generate_malicious_payload (attack_type d) d of
        None \<Rightarrow> w
      | Some (payload, target) \<Rightarrow>
          if payload \<noteq> [] \<and> target \<noteq> [] then
            (let malicious_url = Attack_url (malicious_site d) target payload;
                 w1 = log_security_event (attack_type d) ''high'' malicious_url w
             in snd (make_request malicious_url ''GET'' ''malicious'' (answer d) w1))
          else w)"

section \<open>\<^verbatim>\<open>websitetraffic.py\<close>: requests and sessions\<close>

text \<open>
  \<^verbatim>\<open>WebTrafficGenerator\<close> keeps no statistics; its functions carry the prefix
  \<open>wtg\<close> here, as \<^verbatim>\<open>make_request\<close> is also a method of the other class.
\<close>

definition wtg_make_request ::
  "url \<Rightarrow> string \<Rightarrow> transport_outcome \<Rightarrow> world \<Rightarrow> response option \<times> world" where
  "wtg_make_request u method out w =
     (let w1 = emit (Transport_call method u) w
      in case out of
           Responded r \<Rightarrow> (Some r, emit (Status_line (status_code r) method u) w1)
         | RequestException \<Rightarrow> (None, emit (Request_error_line u) w1))"

record wtg_extra =
  path :: string                 \<comment> \<open>an element of the \<^verbatim>\<open>random.sample\<close>\<close>
  path_outcome :: transport_outcome
  pause_u :: rat                 \<comment> \<open>behind \<^verbatim>\<open>random.uniform(0.1, 0.5)\<close>\<close>

record wtg_draws =
  first_outcome :: transport_outcome
  wtg_delay_u :: rat             \<comment> \<open>behind \<^verbatim>\<open>random.uniform(delay_min, delay_max)\<close>\<close>
  more_u :: rat                  \<comment> \<open>\<^verbatim>\<open>random.random()\<close>\<close>
  extras :: "wtg_extra list"     \<comment> \<open>the sampled paths, with the answer to each\<close>

definition simulate_browsing_session ::
  "rat \<Rightarrow> rat \<Rightarrow> string \<Rightarrow> wtg_draws \<Rightarrow> world \<Rightarrow> world" where
  "simulate_browsing_session request_delay_min request_delay_max website d w =
     (case wtg_make_request (Site website) ''GET'' (first_outcome d) w of
        (resp, w1) \<Rightarrow>
          if falsy resp then w1
          else
            (let w2 = time_sleep (uniform request_delay_min request_delay_max (wtg_delay_u d)) w1
             in if more_u d < 7 / 10
                then fold (\<lambda>e v. time_sleep (uniform (1 / 10) (1 / 2) (pause_u e))
                                   (snd (wtg_make_request (Urljoin website (path e)) ''GET''
                                           (path_outcome e) v)))
                       (extras d) w2
                else w2))"

section \<open>\<^verbatim>\<open>enhanced_web_traffic_simulator.py\<close>: the requests of a window\<close>

text \<open>
  The entries of \<^verbatim>\<open>self.config\<close> that bear on the composition of a window. The
  two probabilities are set by \<^verbatim>\<open>__init__\<close> and by a configuration file;
  \<^verbatim>\<open>generate_advanced_traffic\<close> reads the two flags and \<^verbatim>\<open>max_workers\<close> only.
\<close>

record config =
  max_workers :: int
  compromise_probability :: rat
  malicious_traffic_probability :: rat
  simulate_compromised_host :: bool
  security_simulation_enabled :: bool

definition class_count :: "int \<Rightarrow> rat \<Rightarrow> int" where
  \<comment> \<open>\<^verbatim>\<open>int(requests_per_minute * fraction)\<close>\<close>
  "class_count requests_per_minute fraction = py_int (of_int requests_per_minute * fraction)"

text \<open>
  \<^verbatim>\<open>random.shuffle(x)\<close> walks \<open>i\<close> from the last index down to 1 and swaps
  \<open>x[i]\<close> with \<open>x[j]\<close>, \<open>j\<close> drawn below \<open>i + 1\<close>. \<open>draw i\<close> is the value drawn
  at index \<open>i\<close>.
\<close>

fun shuffle_down :: "nat \<Rightarrow> (nat \<Rightarrow> nat) \<Rightarrow> 'a list \<Rightarrow> 'a list" where
  "shuffle_down 0 draw xs = xs"
| "shuffle_down (Suc k) draw xs =
     (let i = Suc k; j = draw i mod (i + 1)
      in shuffle_down k draw (xs[i := xs ! j, j := xs ! i]))"

definition shuffle :: "(nat \<Rightarrow> nat) \<Rightarrow> 'a list \<Rightarrow> 'a list" where
  "shuffle draw xs = shuffle_down (length xs - 1) draw xs"

record window_draws =
  normal_site :: "nat \<Rightarrow> string"       \<comment> \<open>\<^verbatim>\<open>random.choice(self.websites)\<close>, first loop\<close>
  compromised_site :: "nat \<Rightarrow> string"   \<comment> \<open>the same, second loop\<close>
  swap_with :: "nat \<Rightarrow> nat"             \<comment> \<open>the draws of \<^verbatim>\<open>random.shuffle\<close>\<close>

definition all_requests ::
  "config \<Rightarrow> int \<Rightarrow> window_draws \<Rightarrow> (string \<times> string option) list" where
  \<comment> \<open>the list \<^verbatim>\<open>all_requests\<close> of \<^verbatim>\<open>generate_advanced_traffic\<close>, before the shuffle\<close>
  "all_requests cfg requests_per_minute d =
     (let normal_requests = class_count requests_per_minute (8 / 10);
          compromised_requests = class_count requests_per_minute (15 / 100);
          malicious_requests = class_count requests_per_minute (5 / 100)
      in map (\<lambda>k. (''normal'', Some (normal_site d k))) (py_range normal_requests)
         @ (if simulate_compromised_host cfg
            then map (\<lambda>k. (''compromised'', Some (compromised_site d k)))
                   (py_range compromised_requests)
            else [])
         @ (if security_simulation_enabled cfg
            then map (\<lambda>k. (''malicious'', None)) (py_range malicious_requests)
            else []))"

definition window_requests ::
  "config \<Rightarrow> int \<Rightarrow> window_draws \<Rightarrow> (string \<times> string option) list" where
  \<comment> \<open>the list handed to the executor\<close>
  "window_requests cfg requests_per_minute d =
     shuffle (swap_with d) (all_requests cfg requests_per_minute d)"

definition requests_of :: "string \<Rightarrow> (string \<times> string option) list \<Rightarrow> int" where
  \<comment> \<open>how many requests of a list have the given type\<close>
  "requests_of request_type rs = int (length (filter (\<lambda>r. fst r = request_type) rs))"

section \<open>\<^verbatim>\<open>enhanced_web_traffic_simulator.py\<close>: the end of a run\<close>

definition round_half_even :: "rat \<Rightarrow> int" where
  "round_half_even x =
     (let f = \<lfloor>x\<rfloor>; r = x - of_int f
      in if r < 1 / 2 then f else if 1 / 2 < r then f + 1 else if even f then f else f + 1)"

definition py_round2 :: "rat \<Rightarrow> rat" where
  \<comment> \<open>\<^verbatim>\<open>round(x, 2)\<close>\<close>
  "py_round2 x = of_int (round_half_even (x * 100)) / 100"

definition log_final_statistics :: "rat \<Rightarrow> world \<Rightarrow> py_error option \<times> world" where
  \<comment> \<open>\<open>end_time\<close> is the \<^verbatim>\<open>datetime.now()\<close> it reads; a float division by zero raises.\<close>
  "log_final_statistics end_time w =
     (let s = stats w;
          total_time = (end_time - start_time s) / 60
      in if total_time = 0 then (Some ZeroDivisionError, w)
         else
           (let final_stats =
                  [(''total_requests'', PyInt (int (total_requests s))),
                   (''successful_requests'', PyInt (int (successful_requests s))),
                   (''failed_requests'', PyInt (int (failed_requests s))),
                   (''security_events'', PyInt (int (security_events s))),
                   (''compromise_activities'', PyInt (int (compromise_activities s))),
                   (''start_time'', PyDatetime (start_time s)),
                   (''end_time'', PyIsoformat end_time),
                   (''duration_minutes'', PyFloat (py_round2 total_time)),
                   (''requests_per_minute'',
                      PyFloat (py_round2 (of_nat (total_requests s) / total_time))),
                   (''success_rate'',
                      PyFloat (py_round2 (of_nat (successful_requests s)
                                           / of_nat (max (total_requests s) 1) * 100)))]
            in case log_statistics final_stats w of
                 (Some e, w1) \<Rightarrow> (Some e, w1)
               | (None, w1) \<Rightarrow>
                   (case json_dumps final_stats of
                      Inl e \<Rightarrow> (Some e, w1)
                    | Inr txt \<Rightarrow> (None, emit (Session_completed_line txt) w1))))"

text \<open>
  How the \<^verbatim>\<open>while\<close> loop of \<^verbatim>\<open>generate_advanced_traffic\<close> was left: the end
  time was reached, or \<^verbatim>\<open>KeyboardInterrupt\<close> or another exception came out of the
  \<^verbatim>\<open>try\<close> block.
\<close>

datatype loop_exit = End_time_reached | KeyboardInterrupt | Exception string

definition generate_advanced_traffic_exit ::
  "loop_exit \<Rightarrow> rat \<Rightarrow> world \<Rightarrow> py_error option \<times> world" where
  \<comment> \<open>the \<^verbatim>\<open>except\<close> and \<^verbatim>\<open>finally\<close> clauses; an exception raised in
      \<^verbatim>\<open>finally\<close> leaves the function\<close>
  "generate_advanced_traffic_exit how end_time w =
     (let w1 = (case how of
                  End_time_reached \<Rightarrow> w
                | KeyboardInterrupt \<Rightarrow> emit Interrupted_line w
                | Exception e \<Rightarrow> emit (Unexpected_error_line e) w)
      in log_final_statistics end_time w1)"

section \<open>Reading a trace\<close>

definition new_effects :: "world \<Rightarrow> world \<Rightarrow> effect list" where
  \<comment> \<open>what was added to the trace between \<open>w\<close> and \<open>w'\<close>\<close>
  "new_effects w w' = drop (length (trace w)) (trace w')"

fun is_transport_call :: "effect \<Rightarrow> bool" where
  "is_transport_call (Transport_call m u) = True"
| "is_transport_call e = False"

fun is_sleep :: "effect \<Rightarrow> bool" where
  "is_sleep (Sleep d) = True"
| "is_sleep e = False"

fun is_summary :: "effect \<Rightarrow> bool" where
  "is_summary (Statistics_event d) = True"
| "is_summary (Session_completed_line d) = True"
| "is_summary e = False"

fun is_compromise_event :: "effect \<Rightarrow> bool" where
  "is_compromise_event (Compromise_event a t p s) = True"
| "is_compromise_event e = False"

section \<open>Concrete answers of the environment\<close>

definition answered :: "int \<Rightarrow> exchange" where
  \<comment> \<open>the host resolves and the server answers with the given status\<close>
  "answered status =
     \<lparr>hostname = Some ''www.google.com'', resolves = True,
      outcome = Responded \<lparr>status_code = status\<rparr>\<rparr>"

definition refused :: exchange where
  \<comment> \<open>the connection fails: \<^verbatim>\<open>session.request\<close> raises \<^verbatim>\<open>ConnectionError\<close>\<close>
  "refused =
     \<lparr>hostname = Some ''www.google.com'', resolves = False, outcome = RequestException\<rparr>"

definition no_draws :: behavior_draws where
  "no_draws =
     \<lparr>picked_target = ''c2.evil.com'', picked_method = ''POST'',
      picked_site = ''https://www.google.com'', payload_id = ''0'', timestamp = 0,
      command = ''heartbeat'', data = ''AA=='', size_mb = ''1''\<rparr>"

definition session_starting_with :: "exchange \<Rightarrow> session_draws" where
  \<comment> \<open>three interactions (a sub-page, a search, a form), each answered with 200\<close>
  "session_starting_with x =
     \<lparr>navigation = x, reading_u = 1 / 2, interactions = 3,
      interaction_at = (\<lambda>k. \<lparr>interaction_type =
                                   (if k = 0 then ''subpage''
                                    else if k = 1 then ''search'' else ''form_submit''),
                                picked = (if k = 0 then ''/about'' else ''news''),
                                reply = answered 200, delay_u = 1 / 2\<rparr>),
      compromise_u = 1 / 10, compromise_behavior = ''c2_communication'',
      behavior_of = no_draws\<rparr>"

definition wtg_session_starting_with :: "transport_outcome \<Rightarrow> wtg_draws" where
  "wtg_session_starting_with out =
     \<lparr>first_outcome = out, wtg_delay_u = 1 / 2, more_u = 1 / 2,
      extras = [\<lparr>path = ''/robots.txt'',
                 path_outcome = Responded \<lparr>status_code = 200\<rparr>, pause_u = 1 / 2\<rparr>]\<rparr>"

definition all_enabled :: config where
  \<comment> \<open>the default configuration of \<^verbatim>\<open>__init__\<close>\<close>
  "all_enabled =
     \<lparr>max_workers = 8, compromise_probability = 1 / 10,
      malicious_traffic_probability = 5 / 100,
      simulate_compromised_host = True, security_simulation_enabled = True\<rparr>"

definition none_enabled :: config where
  \<comment> \<open>\<^verbatim>\<open>--no-compromise --no-malicious\<close>\<close>
  "none_enabled =
     \<lparr>max_workers = 8, compromise_probability = 1 / 10,
      malicious_traffic_probability = 5 / 100,
      simulate_compromised_host = False, security_simulation_enabled = False\<rparr>"

definition some_draws :: window_draws where
  "some_draws =
     \<lparr>normal_site = (\<lambda>k. ''https://www.google.com''),
      compromised_site = (\<lambda>k. ''https://www.bing.com''),
      swap_with = (\<lambda>i. 7 * i + 3)\<rparr>"

section \<open>Properties\<close>

subsection \<open>Jitter\<close>

text \<open>
  Claim C10. For every base and every variance (zero and negative ones too) and every
  value the random generator returns, \<open>jitter\<close> returns at least \<open>0.1\<close>: no sleep
  duration computed by it is zero or negative.
\<close>

theorem jitter_at_least_tenth: "1 / 10 \<le> jitter base variance u \<and> 0 < jitter base variance u"
proof -
  have "(1 / 10 :: rat) \<le> jitter base variance u"
    by (simp add: jitter_def)
  moreover have "(0 :: rat) < 1 / 10"
    by simp
  ultimately show ?thesis
    by simp
qed

subsection \<open>The window's remainder\<close>

text \<open>
  Claim C1. After a window's batch, with \<open>elapsed\<close> the clock reading minus the
  window's start: when \<open>elapsed < 60\<close> the scheduler's only effect is one sleep of
  exactly \<open>60 - elapsed\<close>; when \<open>elapsed \<ge> 60\<close> it has no effect at all and goes on to
  the next window.
\<close>

theorem wait_for_rest_of_minute_remainder:
  "(now - minute_start < 60 \<longrightarrow>
      wait_for_rest_of_minute minute_start now w
        = w\<lparr>trace := trace w @ [Sleep (60 - (now - minute_start))]\<rparr>)
   \<and> (60 \<le> now - minute_start \<longrightarrow> wait_for_rest_of_minute minute_start now w = w)"
  by (simp add: wait_for_rest_of_minute_def time_sleep_def emit_def Let_def)

theorem wait_for_rest_of_minute_remainder_witness:
  "(100 :: rat) - 70 < 60
   \<and> wait_for_rest_of_minute 70 100 (fresh_world 0)
       = (fresh_world 0)\<lparr>trace := trace (fresh_world 0) @ [Sleep (60 - (100 - 70))]\<rparr>
   \<and> (60 :: rat) \<le> 175 - 100
   \<and> wait_for_rest_of_minute 100 175 (fresh_world 0) = fresh_world 0"
  using wait_for_rest_of_minute_remainder [of 100 70 "fresh_world 0"]
    wait_for_rest_of_minute_remainder [of 175 100 "fresh_world 0"]
  by simp

subsection \<open>One request\<close>

lemma make_request_stats:
  "stats (snd (make_request u m t x w)) =
     (case outcome x of
        Responded r \<Rightarrow>
          (stats w)\<lparr>total_requests := total_requests (stats w) + 1,
                    successful_requests :=
                      successful_requests (stats w) + (if status_code r < 400 then 1 else 0),
                    failed_requests :=
                      failed_requests (stats w) + (if status_code r < 400 then 0 else 1),
                    security_events :=
                      security_events (stats w) + (if t = ''malicious'' then 1 else 0)\<rparr>
      | RequestException \<Rightarrow> (stats w)\<lparr>failed_requests := failed_requests (stats w) + 1\<rparr>)"
  by (simp add: make_request_def Let_def simulate_dns_lookup_def log_dns_query_def emit_def
        log_traffic_def log_security_event_def
      split: transport_outcome.split option.split)

lemma make_request_fst:
  "fst (make_request u m t x w)
     = (case outcome x of Responded r \<Rightarrow> Some r | RequestException \<Rightarrow> None)"
  by (simp add: make_request_def Let_def split: transport_outcome.split)

lemma make_request_new_calls:
  "filter is_transport_call (new_effects w (snd (make_request u m t x w)))
     = [Transport_call m u]"
  by (simp add: new_effects_def make_request_def Let_def simulate_dns_lookup_def
        log_dns_query_def emit_def log_traffic_def log_security_event_def
      split: transport_outcome.split option.split)

lemma make_request_new_sleeps:
  "filter is_sleep (new_effects w (snd (make_request u m t x w))) = []"
  by (simp add: new_effects_def make_request_def Let_def simulate_dns_lookup_def
        log_dns_query_def emit_def log_traffic_def log_security_event_def
      split: transport_outcome.split option.split)

text \<open>
  Claim C9. One \<open>make_request\<close>: when the transport returns a response, \<open>total_requests\<close>
  goes up by one and so does exactly one of \<open>successful_requests\<close> (status below 400)
  and \<open>failed_requests\<close> (status 400 or more); when the transport raises,
  \<open>failed_requests\<close> goes up by one and \<open>total_requests\<close> does not move. So an HTTP error
  status counts in the total and in the failures, a transport failure in the failures only.
\<close>

theorem make_request_counters:
  "(outcome x = Responded r \<and> status_code r < 400 \<longrightarrow>
      fst (make_request u m t x w) = Some r
      \<and> total_requests (stats (snd (make_request u m t x w))) = total_requests (stats w) + 1
      \<and> successful_requests (stats (snd (make_request u m t x w)))
          = successful_requests (stats w) + 1
      \<and> failed_requests (stats (snd (make_request u m t x w))) = failed_requests (stats w))
   \<and> (outcome x = Responded r \<and> 400 \<le> status_code r \<longrightarrow>
      fst (make_request u m t x w) = Some r
      \<and> total_requests (stats (snd (make_request u m t x w))) = total_requests (stats w) + 1
      \<and> successful_requests (stats (snd (make_request u m t x w)))
          = successful_requests (stats w)
      \<and> failed_requests (stats (snd (make_request u m t x w)))
          = failed_requests (stats w) + 1)
   \<and> (outcome x = RequestException \<longrightarrow>
      fst (make_request u m t x w) = None
      \<and> total_requests (stats (snd (make_request u m t x w))) = total_requests (stats w)
      \<and> successful_requests (stats (snd (make_request u m t x w)))
          = successful_requests (stats w)
      \<and> failed_requests (stats (snd (make_request u m t x w)))
          = failed_requests (stats w) + 1)"
  by (simp add: make_request_stats make_request_fst)

theorem make_request_counters_witness:
  "outcome (answered 200) = Responded \<lparr>status_code = 200\<rparr>
   \<and> stats (snd (make_request (Site ''https://www.google.com'') ''GET'' ''normal''
                    (answered 200) (fresh_world 0)))
       = (stats (fresh_world 0))\<lparr>total_requests := 1, successful_requests := 1\<rparr>
   \<and> outcome (answered 404) = Responded \<lparr>status_code = 404\<rparr>
   \<and> stats (snd (make_request (Site ''https://www.google.com'') ''GET'' ''normal''
                    (answered 404) (fresh_world 0)))
       = (stats (fresh_world 0))\<lparr>total_requests := 1, failed_requests := 1\<rparr>
   \<and> outcome refused = RequestException
   \<and> stats (snd (make_request (Site ''https://www.google.com'') ''GET'' ''normal''
                    refused (fresh_world 0)))
       = (stats (fresh_world 0))\<lparr>failed_requests := 1\<rparr>"
  using
    make_request_counters [of "answered 200" "\<lparr>status_code = 200\<rparr>"
      "Site ''https://www.google.com''" "''GET''" "''normal''" "fresh_world 0"]
    make_request_counters [of "answered 404" "\<lparr>status_code = 404\<rparr>"
      "Site ''https://www.google.com''" "''GET''" "''normal''" "fresh_world 0"]
    make_request_counters [of refused "\<lparr>status_code = 0\<rparr>"
      "Site ''https://www.google.com''" "''GET''" "''normal''" "fresh_world 0"]
  by (simp add: answered_def refused_def fresh_world_def make_request_stats)

text \<open>
  Every request adds one to exactly one of \<open>successful_requests\<close> and
  \<open>failed_requests\<close>; \<open>total_requests\<close> falls behind their sum by one at each
  request whose transport raises.
\<close>

lemma make_request_balance:
  "int (successful_requests (stats (snd (make_request u m t x w))))
     + int (failed_requests (stats (snd (make_request u m t x w))))
     - int (total_requests (stats (snd (make_request u m t x w))))
   = int (successful_requests (stats w)) + int (failed_requests (stats w))
     - int (total_requests (stats w))
     + (if outcome x = RequestException then 1 else 0)"
  by (cases "outcome x") (simp_all add: make_request_stats)

text \<open>
  Claim C8 says that \<open>successful_requests + failed_requests = total_requests\<close> at the end
  of every run, also when transport calls fail. The \<^verbatim>\<open>except\<close> branch of
  \<open>make_request\<close> counts the failure and not the request: on a fresh simulator, one request
  whose connection fails leaves \<open>total_requests = 0\<close>, \<open>successful_requests = 0\<close> and
  \<open>failed_requests = 1\<close>. The branch for an HTTP error status counts both.
\<close>

theorem refused_request_breaks_total:
  "total_requests (stats (snd (make_request (Site ''https://www.google.com'') ''GET''
                                 ''normal'' refused (fresh_world 0)))) = 0
   \<and> successful_requests (stats (snd (make_request (Site ''https://www.google.com'') ''GET''
                                        ''normal'' refused (fresh_world 0)))) = 0
   \<and> failed_requests (stats (snd (make_request (Site ''https://www.google.com'') ''GET''
                                    ''normal'' refused (fresh_world 0)))) = 1
   \<and> successful_requests (stats (snd (make_request (Site ''https://www.google.com'') ''GET''
                                        ''normal'' refused (fresh_world 0))))
       + failed_requests (stats (snd (make_request (Site ''https://www.google.com'') ''GET''
                                        ''normal'' refused (fresh_world 0))))
       \<noteq> total_requests (stats (snd (make_request (Site ''https://www.google.com'') ''GET''
                                        ''normal'' refused (fresh_world 0))))"
  by (simp add: make_request_stats refused_def fresh_world_def)

subsection \<open>The C2 behaviour of a compromised host\<close>

text \<open>
  Claim C6. The simulator has no dry-run switch: its C2 branch never sends, whatever
  the configuration. An execution of \<open>simulate_compromised_behavior\<close> for
  \<open>c2_communication\<close> adds exactly one compromise-activity event (counted by the logger)
  to the trace, so no transport call and no lookup, adds one to \<open>compromise_activities\<close>,
  and leaves every other part of the state as it was.
\<close>

theorem c2_communication_only_logs:
  "simulate_compromised_behavior ''c2_communication'' d w =
     w\<lparr>stats := (stats w)\<lparr>compromise_activities := compromise_activities (stats w) + 1\<rparr>,
       counts := (counts w)\<lparr>compromise := compromise (counts w) + 1\<rparr>,
       trace := trace w @ [Compromise_event ''c2_communication'' (picked_target d)
                   [(''id'', PyStr (payload_id d)), (''timestamp'', PyInt (timestamp d)),
                    (''command'', PyStr (command d)), (''data'', PyStr (data d))] False]\<rparr>
   \<and> filter is_transport_call
         (new_effects w (simulate_compromised_behavior ''c2_communication'' d w)) = []
   \<and> length (filter is_compromise_event
         (new_effects w (simulate_compromised_behavior ''c2_communication'' d w))) = 1"
  by (simp add: simulate_compromised_behavior_def compromise_behaviors_def Let_def
      log_compromise_activity_def emit_def new_effects_def)

theorem c2_communication_only_logs_witness:
  "simulate_compromised_behavior ''c2_communication'' no_draws (fresh_world 0) =
     (fresh_world 0)
       \<lparr>stats := (stats (fresh_world 0))\<lparr>compromise_activities := 1\<rparr>,
        counts := (counts (fresh_world 0))\<lparr>compromise := 1\<rparr>,
        trace := [Compromise_event ''c2_communication'' ''c2.evil.com''
                   [(''id'', PyStr ''0''), (''timestamp'', PyInt 0),
                    (''command'', PyStr ''heartbeat''), (''data'', PyStr ''AA=='')] False]\<rparr>"
  using c2_communication_only_logs [of no_draws "fresh_world 0"]
  by (simp add: no_draws_def fresh_world_def)

subsection \<open>A session whose first request fails\<close>

text \<open>
  The sessions test the value of the first \<open>make_request\<close> with \<^verbatim>\<open>if not response\<close>.
  It is false-like when the transport raised and when the status of the response is one
  of 400 to 599.
\<close>

lemma falsy_make_request_iff:
  "falsy (fst (make_request u m t x w)) \<longleftrightarrow>
     outcome x = RequestException
     \<or> (\<exists>r. outcome x = Responded r \<and> 400 \<le> status_code r \<and> status_code r < 600)"
  by (cases "outcome x") (simp_all add: make_request_fst falsy_def response_ok_def)

lemma falsy_make_request_failed:
  assumes "falsy (fst (make_request u m t x w))"
  shows "failed_requests (stats (snd (make_request u m t x w))) = failed_requests (stats w) + 1"
    and "successful_requests (stats (snd (make_request u m t x w)))
           = successful_requests (stats w)"
    and "compromise_activities (stats (snd (make_request u m t x w)))
           = compromise_activities (stats w)"
  using assms
  by (auto simp add: make_request_stats make_request_fst falsy_def response_ok_def
      split: transport_outcome.splits)

lemma session_stops:
  assumes "falsy (fst (make_request (Site website) ''GET'' session_type (navigation d) w))"
  shows "simulate_human_browsing_session website session_type d w
           = snd (make_request (Site website) ''GET'' session_type (navigation d) w)"
  using assms
  by (cases "make_request (Site website) ''GET'' session_type (navigation d) w")
    (simp add: simulate_human_browsing_session_def)

lemma wtg_make_request_new_calls:
  "filter is_transport_call (new_effects w (snd (wtg_make_request u m out w)))
     = [Transport_call m u]"
  by (simp add: new_effects_def wtg_make_request_def Let_def emit_def
      split: transport_outcome.split)

lemma wtg_make_request_new_sleeps:
  "filter is_sleep (new_effects w (snd (wtg_make_request u m out w))) = []"
  by (simp add: new_effects_def wtg_make_request_def Let_def emit_def
      split: transport_outcome.split)

lemma wtg_session_stops:
  assumes "falsy (fst (wtg_make_request (Site website) ''GET'' (first_outcome d) w))"
  shows "simulate_browsing_session lo hi website d w
           = snd (wtg_make_request (Site website) ''GET'' (first_outcome d) w)"
  using assms
  by (cases "wtg_make_request (Site website) ''GET'' (first_outcome d) w")
    (simp add: simulate_browsing_session_def)

lemma falsy_wtg_make_request_iff:
  "falsy (fst (wtg_make_request u m out w)) \<longleftrightarrow>
     out = RequestException
     \<or> (\<exists>r. out = Responded r \<and> 400 \<le> status_code r \<and> status_code r < 600)"
  by (cases out) (simp_all add: wtg_make_request_def Let_def falsy_def response_ok_def)

lemma wtg_make_request_stats:
  "stats (snd (wtg_make_request u m out w)) = stats w"
  "counts (snd (wtg_make_request u m out w)) = counts w"
  by (simp_all add: wtg_make_request_def Let_def emit_def split: transport_outcome.split)

text \<open>
  Claim C5 as the specification states it fails in two ways. A first response with status
  600 is counted by \<open>make_request\<close> as a failed request (\<open>400 \<le> 600\<close>), yet it is not
  false-like, and the session goes on to its three interactions. And no session carries a
  success flag: the functions return nothing, and after a session of
  \<^verbatim>\<open>websitetraffic.py\<close> whose first request failed every counter of the state is what
  it is after one whose first request was answered with 200.
\<close>

theorem navigation_with_status_600_goes_on:
  "outcome (navigation (session_starting_with (answered 600)))
     = Responded \<lparr>status_code = 600\<rparr>
   \<and> stats (snd (make_request (Site ''https://www.google.com'') ''GET'' ''normal''
                    (navigation (session_starting_with (answered 600))) (fresh_world 0)))
       = (stats (fresh_world 0))\<lparr>total_requests := 1, failed_requests := 1\<rparr>
   \<and> filter is_transport_call
         (new_effects (fresh_world 0)
            (simulate_human_browsing_session ''https://www.google.com'' ''normal''
               (session_starting_with (answered 600)) (fresh_world 0)))
       = [Transport_call ''GET'' (Site ''https://www.google.com''),
          Transport_call ''GET'' (Urljoin ''https://www.google.com'' ''/about''),
          Transport_call ''GET'' (Search_url ''https://www.google.com'' ''news''),
          Transport_call ''POST'' (Site ''https://www.google.com'')]
   \<and> stats (simulate_browsing_session 1 5 ''https://www.google.com''
               (wtg_session_starting_with RequestException) (fresh_world 0))
       = stats (simulate_browsing_session 1 5 ''https://www.google.com''
               (wtg_session_starting_with (Responded \<lparr>status_code = 200\<rparr>)) (fresh_world 0))
   \<and> counts (simulate_browsing_session 1 5 ''https://www.google.com''
               (wtg_session_starting_with RequestException) (fresh_world 0))
       = counts (simulate_browsing_session 1 5 ''https://www.google.com''
               (wtg_session_starting_with (Responded \<lparr>status_code = 200\<rparr>)) (fresh_world 0))"
  by (simp add: session_starting_with_def wtg_session_starting_with_def answered_def
      fresh_world_def simulate_human_browsing_session_def simulate_browsing_session_def
      interact_def make_request_def wtg_make_request_def falsy_def response_ok_def
      simulate_dns_lookup_def log_dns_query_def log_traffic_def time_sleep_def emit_def
      new_effects_def py_range_def upt_rec Let_def)

text \<open>
  Claim C5, amended. A session whose initial request raises a transport exception or is
  answered with a status from 400 to 599 (the cases in which \<^verbatim>\<open>not response\<close> holds)
  returns at once: its only transport call is that request, and it sleeps for no reading
  time and runs no interaction and no compromise behaviour. The session returns no value
  and sets no success flag. In the enhanced simulator its one request is counted in
  \<open>failed_requests\<close> and not in \<open>successful_requests\<close>; the session of
  \<^verbatim>\<open>websitetraffic.py\<close> changes no counter.
\<close>

theorem failed_navigation_ends_session:
  "(outcome (navigation d) = RequestException
      \<or> (\<exists>r. outcome (navigation d) = Responded r
              \<and> 400 \<le> status_code r \<and> status_code r < 600) \<longrightarrow>
      simulate_human_browsing_session website session_type d w
        = snd (make_request (Site website) ''GET'' session_type (navigation d) w)
      \<and> filter is_transport_call
            (new_effects w (simulate_human_browsing_session website session_type d w))
          = [Transport_call ''GET'' (Site website)]
      \<and> filter is_sleep
            (new_effects w (simulate_human_browsing_session website session_type d w)) = []
      \<and> failed_requests (stats (simulate_human_browsing_session website session_type d w))
          = failed_requests (stats w) + 1
      \<and> successful_requests (stats (simulate_human_browsing_session website session_type d w))
          = successful_requests (stats w)
      \<and> compromise_activities (stats (simulate_human_browsing_session website session_type d w))
          = compromise_activities (stats w))
   \<and> (first_outcome e = RequestException
      \<or> (\<exists>r. first_outcome e = Responded r
              \<and> 400 \<le> status_code r \<and> status_code r < 600) \<longrightarrow>
      simulate_browsing_session lo hi website e v
        = snd (wtg_make_request (Site website) ''GET'' (first_outcome e) v)
      \<and> filter is_transport_call (new_effects v (simulate_browsing_session lo hi website e v))
          = [Transport_call ''GET'' (Site website)]
      \<and> filter is_sleep (new_effects v (simulate_browsing_session lo hi website e v)) = []
      \<and> stats (simulate_browsing_session lo hi website e v) = stats v
      \<and> counts (simulate_browsing_session lo hi website e v) = counts v)"
proof (intro conjI impI)
  assume "outcome (navigation d) = RequestException
      \<or> (\<exists>r. outcome (navigation d) = Responded r
              \<and> 400 \<le> status_code r \<and> status_code r < 600)"
  then have f: "falsy (fst (make_request (Site website) ''GET'' session_type (navigation d) w))"
    by (simp only: falsy_make_request_iff)
  then show s: "simulate_human_browsing_session website session_type d w
        = snd (make_request (Site website) ''GET'' session_type (navigation d) w)"
    by (rule session_stops)
  show "filter is_transport_call
            (new_effects w (simulate_human_browsing_session website session_type d w))
          = [Transport_call ''GET'' (Site website)]"
    by (simp only: s make_request_new_calls)
  show "filter is_sleep
            (new_effects w (simulate_human_browsing_session website session_type d w)) = []"
    by (simp only: s make_request_new_sleeps)
  show "failed_requests (stats (simulate_human_browsing_session website session_type d w))
          = failed_requests (stats w) + 1"
    by (simp only: s falsy_make_request_failed(1) [OF f])
  show "successful_requests (stats (simulate_human_browsing_session website session_type d w))
          = successful_requests (stats w)"
    by (simp only: s falsy_make_request_failed(2) [OF f])
  show "compromise_activities (stats (simulate_human_browsing_session website session_type d w))
          = compromise_activities (stats w)"
    by (simp only: s falsy_make_request_failed(3) [OF f])
next
  assume "first_outcome e = RequestException
      \<or> (\<exists>r. first_outcome e = Responded r
              \<and> 400 \<le> status_code r \<and> status_code r < 600)"
  then have "falsy (fst (wtg_make_request (Site website) ''GET'' (first_outcome e) v))"
    by (simp only: falsy_wtg_make_request_iff)
  then show s: "simulate_browsing_session lo hi website e v
        = snd (wtg_make_request (Site website) ''GET'' (first_outcome e) v)"
    by (rule wtg_session_stops)
  show "filter is_transport_call (new_effects v (simulate_browsing_session lo hi website e v))
          = [Transport_call ''GET'' (Site website)]"
    by (simp only: s wtg_make_request_new_calls)
  show "filter is_sleep (new_effects v (simulate_browsing_session lo hi website e v)) = []"
    by (simp only: s wtg_make_request_new_sleeps)
  show "stats (simulate_browsing_session lo hi website e v) = stats v"
    by (simp only: s wtg_make_request_stats)
  show "counts (simulate_browsing_session lo hi website e v) = counts v"
    by (simp only: s wtg_make_request_stats)
qed

theorem failed_navigation_ends_session_witness:
  "outcome (navigation (session_starting_with refused)) = RequestException
   \<and> trace (simulate_human_browsing_session ''https://www.google.com'' ''normal''
                (session_starting_with refused) (fresh_world 0))
       = [Resolve ''www.google.com'', Dns_event ''www.google.com'' ''A_FAILED'',
          Transport_call ''GET'' (Site ''https://www.google.com''),
          Request_error_line (Site ''https://www.google.com'')]
   \<and> stats (simulate_human_browsing_session ''https://www.google.com'' ''normal''
                (session_starting_with refused) (fresh_world 0))
       = (stats (fresh_world 0))\<lparr>failed_requests := 1\<rparr>
   \<and> outcome (navigation (session_starting_with (answered 503)))
       = Responded \<lparr>status_code = 503\<rparr>
   \<and> trace (simulate_human_browsing_session ''https://www.google.com'' ''compromised''
                (session_starting_with (answered 503)) (fresh_world 0))
       = [Resolve ''www.google.com'', Dns_event ''www.google.com'' ''A'',
          Transport_call ''GET'' (Site ''https://www.google.com''),
          Traffic_event ''compromised'' ''GET'' (Site ''https://www.google.com'') 503]
   \<and> stats (simulate_human_browsing_session ''https://www.google.com'' ''compromised''
                (session_starting_with (answered 503)) (fresh_world 0))
       = (stats (fresh_world 0))\<lparr>total_requests := 1, failed_requests := 1\<rparr>
   \<and> first_outcome (wtg_session_starting_with RequestException) = RequestException
   \<and> simulate_browsing_session 1 5 ''https://www.google.com''
         (wtg_session_starting_with RequestException) (fresh_world 0)
       = (fresh_world 0)
           \<lparr>trace := [Transport_call ''GET'' (Site ''https://www.google.com''),
                      Request_error_line (Site ''https://www.google.com'')]\<rparr>"
  using
    failed_navigation_ends_session [of "session_starting_with refused"
      "''https://www.google.com''" "''normal''" "fresh_world 0"
      "wtg_session_starting_with RequestException" 1 5 "fresh_world 0"]
    failed_navigation_ends_session [of "session_starting_with (answered 503)"
      "''https://www.google.com''" "''compromised''" "fresh_world 0"
      "wtg_session_starting_with RequestException" 1 5 "fresh_world 0"]
  by (simp add: session_starting_with_def wtg_session_starting_with_def refused_def
      answered_def fresh_world_def make_request_def wtg_make_request_def
      simulate_dns_lookup_def log_dns_query_def log_traffic_def emit_def Let_def)

subsection \<open>The requests of a window\<close>

lemma shuffle_down_length: "length (shuffle_down k draw xs) = length xs"
  by (induction k arbitrary: xs) (simp_all add: Let_def)

lemma shuffle_down_mset: "k < length xs \<Longrightarrow> mset (shuffle_down k draw xs) = mset xs"
proof (induction k arbitrary: xs)
  case 0
  then show ?case by simp
next
  case (Suc k)
  let ?j = "draw (Suc k) mod (Suc k + 1)"
  let ?ys = "xs[Suc k := xs ! ?j, ?j := xs ! Suc k]"
  have j: "?j < length xs"
  proof -
    have "?j < Suc k + 1" by (rule mod_less_divisor) simp
    with Suc.prems show ?thesis by linarith
  qed
  have "mset ?ys = mset xs"
    using j Suc.prems by (rule mset_swap)
  moreover have "k < length ?ys"
    using Suc.prems by simp
  ultimately show ?case
    using Suc.IH [of ?ys] by (simp add: Let_def)
qed

lemma shuffle_mset: "mset (shuffle draw xs) = mset xs"
proof (cases xs)
  case Nil
  then show ?thesis by (simp add: shuffle_def)
next
  case (Cons x ys)
  then have "length xs - 1 < length xs" by simp
  then show ?thesis unfolding shuffle_def by (rule shuffle_down_mset)
qed

lemma length_shuffle: "length (shuffle draw xs) = length xs"
  by (simp add: shuffle_def shuffle_down_length)

lemma requests_of_shuffle: "requests_of c (shuffle draw rs) = requests_of c rs"
proof -
  have "mset (filter (\<lambda>r. fst r = c) (shuffle draw rs)) = mset (filter (\<lambda>r. fst r = c) rs)"
    by (simp add: shuffle_mset)
  then have "length (filter (\<lambda>r. fst r = c) (shuffle draw rs))
               = length (filter (\<lambda>r. fst r = c) rs)"
    by (rule mset_eq_length)
  then show ?thesis by (simp add: requests_of_def)
qed

lemma class_count_floor:
  "0 \<le> rpm \<Longrightarrow> 0 \<le> f \<Longrightarrow> class_count rpm f = \<lfloor>of_int rpm * f\<rfloor>"
  by (simp add: class_count_def py_int_def)

lemma class_count_nonneg: "0 \<le> rpm \<Longrightarrow> 0 \<le> f \<Longrightarrow> 0 \<le> class_count rpm f"
  by (simp add: class_count_floor)

lemma class_count_sum:
  assumes "0 \<le> rpm" "0 \<le> f1" "0 \<le> f2" "0 \<le> f3" "f1 + f2 + f3 \<le> 1"
  shows "class_count rpm f1 + class_count rpm f2 + class_count rpm f3 \<le> rpm"
proof -
  have "\<lfloor>of_int rpm * f1\<rfloor> + \<lfloor>of_int rpm * f2\<rfloor> + \<lfloor>of_int rpm * f3\<rfloor>
          \<le> \<lfloor>of_int rpm * f1 + of_int rpm * f2 + of_int rpm * f3\<rfloor>"
    using le_floor_add [of "of_int rpm * f1" "of_int rpm * f2"]
      le_floor_add [of "of_int rpm * f1 + of_int rpm * f2" "of_int rpm * f3"]
    by linarith
  also have "of_int rpm * f1 + of_int rpm * f2 + of_int rpm * f3 = of_int rpm * (f1 + f2 + f3)"
    by (simp add: algebra_simps)
  also have "\<lfloor>of_int rpm * (f1 + f2 + f3)\<rfloor> \<le> \<lfloor>(of_int rpm :: rat) * 1\<rfloor>"
    using assms by (intro floor_mono mult_left_mono) simp_all
  finally show ?thesis
    using assms by (simp add: class_count_floor)
qed

lemma requests_of_all_requests:
  "requests_of ''normal'' (all_requests cfg rpm d) = max 0 (class_count rpm (8 / 10))"
  "requests_of ''compromised'' (all_requests cfg rpm d)
     = (if simulate_compromised_host cfg then max 0 (class_count rpm (15 / 100)) else 0)"
  "requests_of ''malicious'' (all_requests cfg rpm d)
     = (if security_simulation_enabled cfg then max 0 (class_count rpm (5 / 100)) else 0)"
  by (simp_all add: requests_of_def all_requests_def Let_def py_range_def filter_map comp_def)

lemma length_all_requests:
  "int (length (all_requests cfg rpm d)) =
     requests_of ''normal'' (all_requests cfg rpm d)
     + requests_of ''compromised'' (all_requests cfg rpm d)
     + requests_of ''malicious'' (all_requests cfg rpm d)"
  by (simp add: requests_of_all_requests) (simp add: all_requests_def Let_def py_range_def)

lemma floor_rat_numeral_divide:
  "\<lfloor>numeral a / numeral b :: rat\<rfloor> = numeral a div numeral b"
  using floor_divide_of_int_eq [of "numeral a" "numeral b", where ?'a = rat] by simp

text \<open>
  Claim C2 as the specification states it lets the count of a class follow the mix
  fraction configured for it. The planner reads no fraction: with the default
  configuration, whose \<^verbatim>\<open>compromise_probability\<close> is \<open>0.1\<close>, a target of 100 gives
  15 compromised requests and not \<open>\<lfloor>100 \<times> 0.1\<rfloor> = 10\<close>.
\<close>

theorem configured_fraction_not_read:
  "simulate_compromised_host all_enabled
   \<and> compromise_probability all_enabled = 1 / 10
   \<and> requests_of ''compromised'' (window_requests all_enabled 100 some_draws) = 15
   \<and> \<lfloor>of_int 100 * compromise_probability all_enabled\<rfloor> = 10
   \<and> requests_of ''compromised'' (window_requests all_enabled 100 some_draws)
       \<noteq> \<lfloor>of_int 100 * compromise_probability all_enabled\<rfloor>"
  by (simp add: all_enabled_def window_requests_def requests_of_shuffle
      requests_of_all_requests class_count_def py_int_def floor_rat_numeral_divide)

text \<open>
  Claim C2, amended. For a request target \<open>rpm \<ge> 0\<close> and every configuration, the list
  of a window holds, of each enabled class, \<open>\<lfloor>rpm \<times> f\<rfloor>\<close> requests, where \<open>f\<close> is the
  fraction the code fixes for the class (\<open>0.8\<close> normal, which is always enabled,
  \<open>0.15\<close> compromised, \<open>0.05\<close> malicious), and nothing else: what truncation loses is
  not given to another class, and the length of the list is at most \<open>rpm\<close>. The
  probabilities of the configuration have no part in it.
\<close>

theorem window_requests_counts:
  assumes "0 \<le> rpm"
  shows
  "requests_of ''normal'' (window_requests cfg rpm d) = \<lfloor>of_int rpm * (8 / 10 :: rat)\<rfloor>
   \<and> (simulate_compromised_host cfg \<longrightarrow>
        requests_of ''compromised'' (window_requests cfg rpm d)
          = \<lfloor>of_int rpm * (15 / 100 :: rat)\<rfloor>)
   \<and> (security_simulation_enabled cfg \<longrightarrow>
        requests_of ''malicious'' (window_requests cfg rpm d)
          = \<lfloor>of_int rpm * (5 / 100 :: rat)\<rfloor>)
   \<and> int (length (window_requests cfg rpm d))
        = requests_of ''normal'' (window_requests cfg rpm d)
          + requests_of ''compromised'' (window_requests cfg rpm d)
          + requests_of ''malicious'' (window_requests cfg rpm d)
   \<and> int (length (window_requests cfg rpm d)) \<le> rpm
   \<and> window_requests
         (cfg\<lparr>compromise_probability := p, malicious_traffic_probability := q\<rparr>) rpm d
       = window_requests cfg rpm d"
proof -
  have n: "0 \<le> class_count rpm (8 / 10)" and c: "0 \<le> class_count rpm (15 / 100)"
    and m: "0 \<le> class_count rpm (5 / 100)"
    using assms by (simp_all add: class_count_nonneg)
  have fl: "class_count rpm (8 / 10) = \<lfloor>of_int rpm * (8 / 10 :: rat)\<rfloor>"
      "class_count rpm (15 / 100) = \<lfloor>of_int rpm * (15 / 100 :: rat)\<rfloor>"
      "class_count rpm (5 / 100) = \<lfloor>of_int rpm * (5 / 100 :: rat)\<rfloor>"
    using assms by (simp_all add: class_count_floor)
  have sum: "class_count rpm (8 / 10) + class_count rpm (15 / 100)
               + class_count rpm (5 / 100) \<le> rpm"
    using assms by (intro class_count_sum) simp_all
  have n': "requests_of ''normal'' (window_requests cfg rpm d) = class_count rpm (8 / 10)"
    using n by (simp add: window_requests_def requests_of_shuffle requests_of_all_requests)
  have c': "requests_of ''compromised'' (window_requests cfg rpm d)
            = (if simulate_compromised_host cfg then class_count rpm (15 / 100) else 0)"
    using c by (simp add: window_requests_def requests_of_shuffle requests_of_all_requests)
  have m': "requests_of ''malicious'' (window_requests cfg rpm d)
            = (if security_simulation_enabled cfg then class_count rpm (5 / 100) else 0)"
    using m by (simp add: window_requests_def requests_of_shuffle requests_of_all_requests)
  have 1: "requests_of ''normal'' (window_requests cfg rpm d)
             = \<lfloor>of_int rpm * (8 / 10 :: rat)\<rfloor>"
    by (simp only: n' fl)
  have 2: "simulate_compromised_host cfg \<longrightarrow>
        requests_of ''compromised'' (window_requests cfg rpm d)
          = \<lfloor>of_int rpm * (15 / 100 :: rat)\<rfloor>"
    by (simp only: c' fl) simp
  have 3: "security_simulation_enabled cfg \<longrightarrow>
        requests_of ''malicious'' (window_requests cfg rpm d)
          = \<lfloor>of_int rpm * (5 / 100 :: rat)\<rfloor>"
    by (simp only: m' fl) simp
  have 4: "int (length (window_requests cfg rpm d))
        = requests_of ''normal'' (window_requests cfg rpm d)
          + requests_of ''compromised'' (window_requests cfg rpm d)
          + requests_of ''malicious'' (window_requests cfg rpm d)"
    by (simp only: window_requests_def requests_of_shuffle length_shuffle length_all_requests)
  have 5: "int (length (window_requests cfg rpm d)) \<le> rpm"
    using sum n c m unfolding 4 n' c' m'
    by (cases "simulate_compromised_host cfg"; cases "security_simulation_enabled cfg") simp_all
  have 6: "window_requests
         (cfg\<lparr>compromise_probability := p, malicious_traffic_probability := q\<rparr>) rpm d
       = window_requests cfg rpm d"
    by (simp add: window_requests_def all_requests_def)
  from 1 2 3 4 5 6 show ?thesis by blast
qed

theorem window_requests_counts_witness:
  "(0 :: int) \<le> 15
   \<and> requests_of ''normal'' (window_requests all_enabled 15 some_draws) = 12
   \<and> requests_of ''compromised'' (window_requests all_enabled 15 some_draws) = 2
   \<and> requests_of ''malicious'' (window_requests all_enabled 15 some_draws) = 0
   \<and> length (window_requests all_enabled 15 some_draws) = 14
   \<and> window_requests (all_enabled\<lparr>compromise_probability := 1 / 2,
                                     malicious_traffic_probability := 1 / 2\<rparr>) 15 some_draws
       = window_requests all_enabled 15 some_draws"
  using window_requests_counts [of 15 all_enabled some_draws "1 / 2" "1 / 2"]
  by (simp add: all_enabled_def floor_rat_numeral_divide)

text \<open>
  Claim C4. When the compromised class is disabled, the list of a window holds no
  compromised request, whatever the target and the fraction; the same for the malicious
  class.
\<close>

theorem disabled_class_has_no_requests:
  "(\<not> simulate_compromised_host cfg \<longrightarrow>
      requests_of ''compromised'' (window_requests cfg rpm d) = 0
      \<and> (\<forall>r \<in> set (window_requests cfg rpm d). fst r \<noteq> ''compromised''))
   \<and> (\<not> security_simulation_enabled cfg \<longrightarrow>
      requests_of ''malicious'' (window_requests cfg rpm d) = 0
      \<and> (\<forall>r \<in> set (window_requests cfg rpm d). fst r \<noteq> ''malicious''))"
proof -
  have s: "set (window_requests cfg rpm d) = set (all_requests cfg rpm d)"
    unfolding window_requests_def by (rule mset_eq_setD) (rule shuffle_mset)
  show ?thesis
    unfolding s
    by (simp add: window_requests_def requests_of_shuffle requests_of_all_requests)
       (auto simp add: all_requests_def Let_def)
qed

theorem disabled_class_has_no_requests_witness:
  "\<not> simulate_compromised_host none_enabled
   \<and> \<not> security_simulation_enabled none_enabled
   \<and> requests_of ''compromised'' (window_requests none_enabled 100 some_draws) = 0
   \<and> requests_of ''malicious'' (window_requests none_enabled 100 some_draws) = 0
   \<and> requests_of ''normal'' (window_requests none_enabled 100 some_draws) = 80"
  using disabled_class_has_no_requests [of none_enabled 100 some_draws]
  by (simp add: none_enabled_def window_requests_def requests_of_shuffle
      requests_of_all_requests class_count_def py_int_def)

subsection \<open>The end of a run\<close>

text \<open>
  Claim C7 asks for the final statistics to be emitted exactly once when a run ends, be
  it at its end time, by an interrupt or on an unexpected error. The \<^verbatim>\<open>finally\<close>
  clause does call \<open>log_final_statistics\<close>, but the dict it builds holds
  \<^verbatim>\<open>start_time\<close>, a \<^verbatim>\<open>datetime\<close>, so \<^verbatim>\<open>json.dumps\<close> raises before a line
  is written: however the loop was left, the call ends in an exception and no summary
  line is added to the trace.
\<close>

theorem final_statistics_never_logged:
  "fst (generate_advanced_traffic_exit how end_time w)
     = Some (if end_time = start_time (stats w) then ZeroDivisionError else TypeError)
   \<and> filter is_summary (new_effects w (snd (generate_advanced_traffic_exit how end_time w))) = []"
  by (cases how)
    (simp_all add: generate_advanced_traffic_exit_def log_final_statistics_def Let_def
      log_statistics_def json_dumps_def emit_def new_effects_def)

theorem final_statistics_never_logged_witness:
  "generate_advanced_traffic_exit End_time_reached 60 (fresh_world 0)
     = (Some TypeError, fresh_world 0)
   \<and> generate_advanced_traffic_exit KeyboardInterrupt 60 (fresh_world 0)
     = (Some TypeError, (fresh_world 0)\<lparr>trace := [Interrupted_line]\<rparr>)"
  using final_statistics_never_logged [of End_time_reached 60 "fresh_world 0"]
    final_statistics_never_logged [of KeyboardInterrupt 60 "fresh_world 0"]
  by (simp add: generate_advanced_traffic_exit_def log_final_statistics_def Let_def
      log_statistics_def json_dumps_def emit_def fresh_world_def)

end
